theory Spec2Isabelle
  imports Main "HOL-Library.Sublist"
begin

section \<open>The Glean lifecycle coordinator (glean-core/python/glean/glean.py)\<close>

text \<open>
  The Python module keeps the whole session in class attributes of \<open>Glean\<close> and talks to
  three collaborators: the metrics core (\<open>_uniffi\<close>), the one-at-a-time job dispatcher
  (\<open>ProcessDispatcher\<close>, \<open>PingUploadWorker\<close>) and the interpreter (\<open>atexit\<close>,
  \<open>logging\<close>, the file system). The embedding passes one \<open>world\<close> value through every
  operation: the class attributes, the interpreter's exit hooks, the dispatcher's queue,
  the set of existing paths, and the list of calls that crossed a boundary, each recorded
  together with the class attributes as they were when the call was made.
\<close>

subsection \<open>Data\<close>

datatype py_error =
    TypeError string
  | RuntimeError string
  | FileNotFoundError string
  | InternalError string

text \<open>
  Modelled from the spec: \<open>glean.config.Configuration\<close> is not part of the source at hand.
  The spec names two recognized options, a channel tag and an event cap; both are optional
  here, and the constructor without arguments leaves both unset.
\<close>

record Configuration =
  channel :: "string option"
  max_events :: "int option"

definition Configuration_default :: Configuration where
  "Configuration_default = \<lparr>channel = None, max_events = None\<rparr>"

record Datetime =
  year :: int
  month :: int
  day :: int
  hour :: int
  minute :: int
  second :: int
  nanosecond :: int
  offset_seconds :: int

record ClientInfoMetrics =
  app_build :: string
  app_display_version :: string
  app_build_date :: Datetime
  ci_channel :: "string option"
  architecture :: string
  os_version :: string
  ci_locale :: "string option"
  device_manufacturer :: "string option"
  device_model :: "string option"
  android_sdk_version :: "string option"

record InternalConfiguration =
  data_path :: string
  cfg_application_id :: string
  language_binding_name :: string
  cfg_upload_enabled :: bool
  cfg_max_events :: "int option"
  delay_ping_lifetime_io :: bool
  use_core_mps :: bool
  cfg_app_build :: string

record RecordedExperiment =
  branch :: string
  extra :: "(string \<times> string) list option"

text \<open>
  The class attributes of \<open>Glean\<close>. An attribute that the class only declares
  (\<open>_configuration\<close>, \<open>_application_id\<close>, \<open>_application_version\<close>,
  \<open>_application_build_id\<close>) is \<open>None\<close> until \<open>initialize\<close> assigns it.
  \<open>thread_lock\<close> is the number of times the calling thread holds the reentrant lock.
\<close>

record Glean =
  initialized :: bool
  init_finished :: bool
  testing_mode :: bool
  configuration :: "Configuration option"
  data_dir :: string
  destroy_data_dir :: bool
  upload_enabled :: bool
  ping_type_queue :: "string set"
  application_id :: "string option"
  application_version :: "string option"
  application_build_id :: "string option"
  thread_lock :: nat
  simple_log_level :: "int option"

datatype callable = Glean_reset

datatype job = UploadPass bool | RmTree string

datatype event =
    LoggingBasicConfig int
  | AtexitRegister callable
  | AtexitUnregister callable
  | GleanInitialize InternalConfiguration ClientInfoMetrics
  | GleanTestDestroyGlean bool
  | GleanSetTestMode bool
  | GleanSetUploadEnabled bool
  | GleanSetExperimentActive string string "(string \<times> string) list"
  | GleanSetExperimentInactive string
  | GleanTestGetExperimentData string
  | GleanHandleClientActive
  | GleanHandleClientInactive
  | WaitForLastProcess
  | Dispatch job
  | HandleWait nat

record world =
  glean :: Glean
  atexit_hooks :: "callable list"
  calls :: "(event \<times> Glean) list"
  pending :: "job list"
  completed :: "job list"
  fs :: "string set"

text \<open>The class as Python creates it, in a process that has done nothing yet.\<close>

definition Glean_class :: Glean where
  "Glean_class =
     \<lparr>initialized = False, init_finished = False, testing_mode = False,
      configuration = None, data_dir = ''.'', destroy_data_dir = False,
      upload_enabled = True, ping_type_queue = {}, application_id = None,
      application_version = None, application_build_id = None, thread_lock = 0,
      simple_log_level = None\<rparr>"

definition fresh_process :: "string set \<Rightarrow> world" where
  "fresh_process paths =
     \<lparr>glean = Glean_class, atexit_hooks = [], calls = [], pending = [], completed = [],
      fs = paths\<rparr>"

subsection \<open>The interpreter: boundary calls, exit hooks, the lock, the file system\<close>

definition emit :: "event \<Rightarrow> world \<Rightarrow> world" where
  "emit e w = w\<lparr>calls := calls w @ [(e, glean w)]\<rparr>"

definition logging_basicConfig :: "int \<Rightarrow> world \<Rightarrow> world" where
  "logging_basicConfig level w = emit (LoggingBasicConfig level) w"

text \<open>\<open>atexit.unregister\<close> removes every registration of the function.\<close>

definition atexit_register :: "callable \<Rightarrow> world \<Rightarrow> world" where
  "atexit_register f w = (emit (AtexitRegister f) w)\<lparr>atexit_hooks := atexit_hooks w @ [f]\<rparr>"

definition atexit_unregister :: "callable \<Rightarrow> world \<Rightarrow> world" where
  "atexit_unregister f w =
     (emit (AtexitUnregister f) w)\<lparr>atexit_hooks := removeAll f (atexit_hooks w)\<rparr>"

definition acquire :: "world \<Rightarrow> world" where
  "acquire w = w\<lparr>glean := (glean w)\<lparr>thread_lock := Suc (thread_lock (glean w))\<rparr>\<rparr>"

definition release :: "world \<Rightarrow> world" where
  "release w = w\<lparr>glean := (glean w)\<lparr>thread_lock := thread_lock (glean w) - 1\<rparr>\<rparr>"

definition path_exists :: "string \<Rightarrow> world \<Rightarrow> bool" where
  "path_exists p w = (p \<in> fs w)"

definition below :: "string \<Rightarrow> string \<Rightarrow> bool" where
  "below p q = (q = p \<or> prefix (p @ ''/'') q)"

text \<open>
  \<open>_rmtree\<close>: \<open>shutil.rmtree\<close> deletes the path with everything below it and raises
  when the path is not there; the wrapper then returns \<open>True\<close>.
\<close>

definition rmtree :: "string \<Rightarrow> string set \<Rightarrow> (py_error + bool) \<times> string set" where
  "rmtree path paths =
     (if path \<in> paths then (Inr True, Set.filter (\<lambda>q. \<not> below path q) paths)
      else (Inl (FileNotFoundError path), paths))"

subsection \<open>The job dispatcher\<close>

text \<open>
  Modelled from the spec: \<open>ProcessDispatcher\<close> and \<open>PingUploadWorker\<close> are not part of
  the source at hand. The spec gives one worker that runs the submitted jobs one at a
  time in submission order, a handle per job that can be waited on, and the upload pass
  as the job body of an upload trigger. A job stays in \<open>pending\<close> until a wait makes the
  caller see it finished, oldest first; an upload pass reads the data directory and
  leaves every path in place; a failing job changes nothing. The handle of a job is its
  ticket, the number of jobs submitted up to and including it.
\<close>

fun run_job :: "job \<Rightarrow> string set \<Rightarrow> string set" where
  "run_job (UploadPass tm) paths = paths"
| "run_job (RmTree p) paths = snd (rmtree p paths)"

definition complete_jobs :: "nat \<Rightarrow> world \<Rightarrow> world" where
  "complete_jobs n w =
     w\<lparr>fs := foldl (\<lambda>paths j. run_job j paths) (fs w) (take n (pending w)),
       completed := completed w @ take n (pending w),
       pending := drop n (pending w)\<rparr>"

definition ProcessDispatcher_wait_for_last_process :: "world \<Rightarrow> world" where
  "ProcessDispatcher_wait_for_last_process w =
     (let w1 = emit WaitForLastProcess w in complete_jobs (length (pending w1)) w1)"

definition ProcessDispatcher_dispatch :: "job \<Rightarrow> world \<Rightarrow> nat \<times> world" where
  "ProcessDispatcher_dispatch j w =
     (let w1 = emit (Dispatch j) w
      in (Suc (length (completed w1) + length (pending w1)),
          w1\<lparr>pending := pending w1 @ [j]\<rparr>))"

definition handle_wait :: "nat \<Rightarrow> world \<Rightarrow> world" where
  "handle_wait p w =
     (let w1 = emit (HandleWait p) w in complete_jobs (p - length (completed w1)) w1)"

definition PingUploadWorker_process :: "bool \<Rightarrow> world \<Rightarrow> world" where
  "PingUploadWorker_process tm w = snd (ProcessDispatcher_dispatch (UploadPass tm) w)"

subsection \<open>The metrics core\<close>

text \<open>
  Modelled from the spec: the generated binding \<open>_uniffi\<close> is not part of the source at
  hand. The core is opaque: a call into it is recorded, with its arguments, and returns.
  The spec names the argument of the destroy call \<open>preserveForTest\<close>.
\<close>

definition glean_initialize :: "InternalConfiguration \<Rightarrow> ClientInfoMetrics \<Rightarrow> world \<Rightarrow> world" where
  "glean_initialize cfg client_info w = emit (GleanInitialize cfg client_info) w"

definition glean_test_destroy_glean :: "bool \<Rightarrow> world \<Rightarrow> world" where
  "glean_test_destroy_glean preserve_for_test w =
     emit (GleanTestDestroyGlean preserve_for_test) w"

definition glean_set_test_mode :: "bool \<Rightarrow> world \<Rightarrow> world" where
  "glean_set_test_mode enabled w = emit (GleanSetTestMode enabled) w"

definition glean_set_upload_enabled :: "bool \<Rightarrow> world \<Rightarrow> world" where
  "glean_set_upload_enabled enabled w = emit (GleanSetUploadEnabled enabled) w"

definition glean_set_experiment_active ::
    "string \<Rightarrow> string \<Rightarrow> (string \<times> string) list \<Rightarrow> world \<Rightarrow> world" where
  "glean_set_experiment_active experiment_id br m w =
     emit (GleanSetExperimentActive experiment_id br m) w"

definition glean_set_experiment_inactive :: "string \<Rightarrow> world \<Rightarrow> world" where
  "glean_set_experiment_inactive experiment_id w =
     emit (GleanSetExperimentInactive experiment_id) w"

definition glean_handle_client_active :: "world \<Rightarrow> world" where
  "glean_handle_client_active w = emit GleanHandleClientActive w"

definition glean_handle_client_inactive :: "world \<Rightarrow> world" where
  "glean_handle_client_inactive w = emit GleanHandleClientInactive w"

text \<open>
  Modelled from the spec: the core's experiment query answers with a record or with
  nothing, and this answer is an input of the two accessors of the coordinator. A failure
  inside the core is not caught by the coordinator and reaches the caller as the binding's
  own \<open>InternalError\<close>; \<open>Inl m\<close> is such a failure with message \<open>m\<close>.
\<close>

type_synonym core_answer = "string + RecordedExperiment option"

definition glean_test_get_experiment_data ::
    "core_answer \<Rightarrow> string \<Rightarrow> world \<Rightarrow> (py_error + RecordedExperiment option) \<times> world" where
  "glean_test_get_experiment_data answer experiment_id w =
     (case answer of
        Inl m \<Rightarrow> (Inl (InternalError m), emit (GleanTestGetExperimentData experiment_id) w)
      | Inr d \<Rightarrow> (Inr d, emit (GleanTestGetExperimentData experiment_id) w))"

subsection \<open>The event bridge: class OnGleanEventsImpl\<close>

definition on_initialize_finished :: "world \<Rightarrow> world" where
  "on_initialize_finished w = w\<lparr>glean := (glean w)\<lparr>init_finished := True\<rparr>\<rparr>"

definition trigger_upload :: "world \<Rightarrow> world" where
  "trigger_upload w = PingUploadWorker_process (testing_mode (glean w)) w"

definition start_metrics_ping_scheduler :: "world \<Rightarrow> world" where
  "start_metrics_ping_scheduler w = w"

definition cancel_uploads :: "world \<Rightarrow> world" where
  "cancel_uploads w = w"

subsection \<open>The coordinator: class Glean\<close>

definition is_initialized :: "world \<Rightarrow> bool" where
  "is_initialized w = initialized (glean w)"

definition build_date :: Datetime where
  "build_date =
     \<lparr>year = 1970, month = 1, day = 1, hour = 0, minute = 0, second = 0, nanosecond = 0,
      offset_seconds = 0\<rparr>"

text \<open>
  \<open>initialize\<close>, statement by statement. The \<open>with\<close> block takes the lock and gives it
  back on each of its three exits: the early return, the raise, and the end of the block.
  The client info and the internal configuration are built after the block from the
  class attributes just assigned and from the local \<open>configuration\<close>.
\<close>

definition initialize ::
    "string \<Rightarrow> string option \<Rightarrow> bool \<Rightarrow> Configuration option \<Rightarrow> string option \<Rightarrow>
     string option \<Rightarrow> int option \<Rightarrow> world \<Rightarrow> (py_error + unit) \<times> world" where
  "initialize app_id app_version upload config dir build_id log_level w0 =
     (let w1 = (case log_level of
                  None \<Rightarrow> w0
                | Some l \<Rightarrow>
                    logging_basicConfig l (w0\<lparr>glean := (glean w0)\<lparr>simple_log_level := Some l\<rparr>\<rparr>));
          w2 = acquire w1
      in if is_initialized w2 then (Inr (), release w2)
         else
           let w3 = atexit_register Glean_reset w2;
               config' = (case config of None \<Rightarrow> Configuration_default | Some c \<Rightarrow> c)
           in case dir of
                None \<Rightarrow> (Inl (TypeError ''data_dir must be provided''), release w3)
              | Some d \<Rightarrow>
                  let w4 = w3\<lparr>glean := (glean w3)
                             \<lparr>data_dir := d,
                              destroy_data_dir := False,
                              configuration := Some config',
                              application_id := Some app_id,
                              application_version :=
                                (case app_version of
                                   None \<Rightarrow> Some ''Unknown'' | Some v \<Rightarrow> Some v),
                              application_build_id :=
                                (case build_id of
                                   None \<Rightarrow> Some ''Unknown'' | Some b \<Rightarrow> Some b)\<rparr>\<rparr>;
                      w5 = release w4;
                      client_info =
                        \<lparr>app_build = the (application_build_id (glean w5)),
                         app_display_version = the (application_version (glean w5)),
                         app_build_date = build_date,
                         ci_channel = channel config',
                         architecture = ''Unknown'',
                         os_version = ''Unknown'',
                         ci_locale = None,
                         device_manufacturer = None,
                         device_model = None,
                         android_sdk_version = None\<rparr>;
                      cfg =
                        \<lparr>data_path = data_dir (glean w5),
                         cfg_application_id = app_id,
                         language_binding_name = ''Python'',
                         cfg_upload_enabled = upload,
                         cfg_max_events = max_events config',
                         delay_ping_lifetime_io = False,
                         use_core_mps = False,
                         cfg_app_build = the (application_build_id (glean w5))\<rparr>;
                      w6 = glean_initialize cfg client_info w5
                  in (Inr (), w6\<lparr>glean := (glean w6)\<lparr>initialized := True\<rparr>\<rparr>))"

text \<open>
  \<open>_initialize_with_tempdir_for_testing\<close>. \<open>tmp\<close> is the name that
  \<open>tempfile.TemporaryDirectory().name\<close> hands out. The ownership flag is assigned after
  \<open>initialize\<close> has returned, whatever \<open>initialize\<close> did; were it to raise, the
  assignment would not be reached.
\<close>

definition initialize_with_tempdir_for_testing ::
    "string \<Rightarrow> string \<Rightarrow> string option \<Rightarrow> bool \<Rightarrow> Configuration option \<Rightarrow>
     string option \<Rightarrow> world \<Rightarrow> (py_error + unit) \<times> world" where
  "initialize_with_tempdir_for_testing tmp app_id app_version upload config build_id w =
     (case initialize app_id app_version upload config (Some tmp) build_id None w of
        (Inl e, w1) \<Rightarrow> (Inl e, w1)
      | (Inr u, w1) \<Rightarrow> (Inr (), w1\<lparr>glean := (glean w1)\<lparr>destroy_data_dir := True\<rparr>\<rparr>))"

text \<open>\<open>_reset\<close>, statement by statement.\<close>

definition reset :: "world \<Rightarrow> world" where
  "reset w0 =
     (let w1 = (if destroy_data_dir (glean w0) \<and> path_exists (data_dir (glean w0)) w0
                then ProcessDispatcher_wait_for_last_process w0 else w0);
          w2 = glean_test_destroy_glean False w1;
          w3 = glean_set_test_mode False w2;
          w4 = w3\<lparr>glean := (glean w3)\<lparr>init_finished := False\<rparr>\<rparr>;
          w5 = w4\<lparr>glean := (glean w4)\<lparr>initialized := False\<rparr>\<rparr>;
          w6 = w5\<lparr>glean := (glean w5)\<lparr>testing_mode := False\<rparr>\<rparr>;
          w7 = atexit_unregister Glean_reset w6
      in if destroy_data_dir (glean w7) \<and> path_exists (data_dir (glean w7)) w7
         then (case ProcessDispatcher_dispatch (RmTree (data_dir (glean w7))) w7 of
                 (p, w8) \<Rightarrow> handle_wait p w8)
         else w7)"

definition set_upload_enabled :: "bool \<Rightarrow> world \<Rightarrow> world" where
  "set_upload_enabled enabled w = glean_set_upload_enabled enabled w"

definition set_experiment_active ::
    "string \<Rightarrow> string \<Rightarrow> (string \<times> string) list option \<Rightarrow> world \<Rightarrow> world" where
  "set_experiment_active experiment_id br ex w =
     (let m = (case ex of None \<Rightarrow> [] | Some e \<Rightarrow> e)
      in glean_set_experiment_active experiment_id br m w)"

definition set_experiment_inactive :: "string \<Rightarrow> world \<Rightarrow> world" where
  "set_experiment_inactive experiment_id w = glean_set_experiment_inactive experiment_id w"

definition test_is_experiment_active ::
    "core_answer \<Rightarrow> string \<Rightarrow> world \<Rightarrow> (py_error + bool) \<times> world" where
  "test_is_experiment_active answer experiment_id w =
     (case glean_test_get_experiment_data answer experiment_id w of
        (Inl e, w1) \<Rightarrow> (Inl e, w1)
      | (Inr d, w1) \<Rightarrow> (Inr (d \<noteq> None), w1))"

definition test_get_experiment_data ::
    "core_answer \<Rightarrow> string \<Rightarrow> world \<Rightarrow> (py_error + RecordedExperiment) \<times> world" where
  "test_get_experiment_data answer experiment_id w =
     (case glean_test_get_experiment_data answer experiment_id w of
        (Inl e, w1) \<Rightarrow> (Inl e, w1)
      | (Inr d, w1) \<Rightarrow>
          (case d of
             Some r \<Rightarrow> (Inr r, w1)
           | None \<Rightarrow> (Inl (RuntimeError ''Experiment data is not set''), w1)))"

definition handle_client_active :: "world \<Rightarrow> world" where
  "handle_client_active w = glean_handle_client_active w"

definition handle_client_inactive :: "world \<Rightarrow> world" where
  "handle_client_inactive w = glean_handle_client_inactive w"


subsection \<open>Sessions\<close>

text \<open>
  What a host and the core can do between the start of a session and its reset: the
  host-facing class methods and the four callbacks of the bridge. The answer of the core
  to an experiment query travels with the call.
\<close>

datatype session_call =
    Initialize string "string option" bool "Configuration option" "string option"
      "string option" "int option"
  | IsInitialized
  | SetUploadEnabled bool
  | SetExperimentActive string string "(string \<times> string) list option"
  | SetExperimentInactive string
  | TestIsExperimentActive core_answer string
  | TestGetExperimentData core_answer string
  | HandleClientActive
  | HandleClientInactive
  | OnInitializeFinished
  | TriggerUpload
  | StartMetricsPingScheduler
  | CancelUploads

fun perform :: "session_call \<Rightarrow> world \<Rightarrow> world" where
  "perform (Initialize a v u c d b l) w = snd (initialize a v u c d b l w)"
| "perform IsInitialized w = w"
| "perform (SetUploadEnabled enabled) w = set_upload_enabled enabled w"
| "perform (SetExperimentActive i br ex) w = set_experiment_active i br ex w"
| "perform (SetExperimentInactive i) w = set_experiment_inactive i w"
| "perform (TestIsExperimentActive answer i) w = snd (test_is_experiment_active answer i w)"
| "perform (TestGetExperimentData answer i) w = snd (test_get_experiment_data answer i w)"
| "perform HandleClientActive w = handle_client_active w"
| "perform HandleClientInactive w = handle_client_inactive w"
| "perform OnInitializeFinished w = on_initialize_finished w"
| "perform TriggerUpload w = trigger_upload w"
| "perform StartMetricsPingScheduler w = start_metrics_ping_scheduler w"
| "perform CancelUploads w = cancel_uploads w"

fun session :: "session_call list \<Rightarrow> world \<Rightarrow> world" where
  "session [] w = w"
| "session (c # cs) w = session cs (perform c w)"

subsection \<open>Observing an operation\<close>

text \<open>The boundary calls an operation added, given the world before and after it.\<close>

definition new_calls :: "world \<Rightarrow> world \<Rightarrow> (event \<times> Glean) list" where
  "new_calls w w' = drop (length (calls w)) (calls w')"

fun is_core_call :: "event \<Rightarrow> bool" where
  "is_core_call (GleanInitialize cfg ci) = True"
| "is_core_call (GleanTestDestroyGlean b) = True"
| "is_core_call (GleanSetTestMode b) = True"
| "is_core_call (GleanSetUploadEnabled b) = True"
| "is_core_call (GleanSetExperimentActive i b m) = True"
| "is_core_call (GleanSetExperimentInactive i) = True"
| "is_core_call (GleanTestGetExperimentData i) = True"
| "is_core_call GleanHandleClientActive = True"
| "is_core_call GleanHandleClientInactive = True"
| "is_core_call e = False"

fun is_dispatcher_call :: "event \<Rightarrow> bool" where
  "is_dispatcher_call WaitForLastProcess = True"
| "is_dispatcher_call (Dispatch j) = True"
| "is_dispatcher_call (HandleWait p) = True"
| "is_dispatcher_call e = False"

fun is_upload_pass :: "job \<Rightarrow> bool" where
  "is_upload_pass (UploadPass tm) = True"
| "is_upload_pass (RmTree p) = False"

text \<open>
  Two worlds used as concrete inputs. \<open>host_session\<close>: a fresh process in which a host
  has called \<open>initialize\<close> with its own data directory. \<open>test_session\<close>: a fresh process
  in which a test has started Glean on a temporary directory that exists; the core has
  since reported the end of initialization, and one upload was triggered.
\<close>

definition host_session :: world where
  "host_session =
     snd (initialize ''app'' None True None (Some ''/data'') None None
            (fresh_process {''/data''}))"

definition test_session :: world where
  "test_session =
     trigger_upload (on_initialize_finished
       (snd (initialize_with_tempdir_for_testing ''/tmp/glean'' ''app'' (Some ''1.0'') True
               None None (fresh_process {''/tmp/glean'', ''/tmp/glean/db'', ''/data''}))))"

section \<open>Basic facts\<close>

subsection \<open>What each primitive does to each part of the world\<close>

lemma emit_sel [simp]:
  "glean (emit e w) = glean w"
  "atexit_hooks (emit e w) = atexit_hooks w"
  "calls (emit e w) = calls w @ [(e, glean w)]"
  "pending (emit e w) = pending w"
  "completed (emit e w) = completed w"
  "fs (emit e w) = fs w"
  by (simp_all add: emit_def)

lemma atexit_register_sel [simp]:
  "glean (atexit_register f w) = glean w"
  "atexit_hooks (atexit_register f w) = atexit_hooks w @ [f]"
  "calls (atexit_register f w) = calls w @ [(AtexitRegister f, glean w)]"
  "pending (atexit_register f w) = pending w"
  "completed (atexit_register f w) = completed w"
  "fs (atexit_register f w) = fs w"
  by (simp_all add: atexit_register_def)

lemma atexit_unregister_sel [simp]:
  "glean (atexit_unregister f w) = glean w"
  "atexit_hooks (atexit_unregister f w) = removeAll f (atexit_hooks w)"
  "calls (atexit_unregister f w) = calls w @ [(AtexitUnregister f, glean w)]"
  "pending (atexit_unregister f w) = pending w"
  "completed (atexit_unregister f w) = completed w"
  "fs (atexit_unregister f w) = fs w"
  by (simp_all add: atexit_unregister_def)

lemma acquire_sel [simp]:
  "glean (acquire w) = (glean w)\<lparr>thread_lock := Suc (thread_lock (glean w))\<rparr>"
  "atexit_hooks (acquire w) = atexit_hooks w"
  "calls (acquire w) = calls w"
  "pending (acquire w) = pending w"
  "completed (acquire w) = completed w"
  "fs (acquire w) = fs w"
  by (simp_all add: acquire_def)

lemma release_sel [simp]:
  "glean (release w) = (glean w)\<lparr>thread_lock := thread_lock (glean w) - 1\<rparr>"
  "atexit_hooks (release w) = atexit_hooks w"
  "calls (release w) = calls w"
  "pending (release w) = pending w"
  "completed (release w) = completed w"
  "fs (release w) = fs w"
  by (simp_all add: release_def)

lemma complete_jobs_sel [simp]:
  "glean (complete_jobs n w) = glean w"
  "atexit_hooks (complete_jobs n w) = atexit_hooks w"
  "calls (complete_jobs n w) = calls w"
  "pending (complete_jobs n w) = drop n (pending w)"
  "completed (complete_jobs n w) = completed w @ take n (pending w)"
  "fs (complete_jobs n w) = foldl (\<lambda>paths j. run_job j paths) (fs w) (take n (pending w))"
  by (simp_all add: complete_jobs_def)

lemma wait_for_last_process_sel [simp]:
  "glean (ProcessDispatcher_wait_for_last_process w) = glean w"
  "atexit_hooks (ProcessDispatcher_wait_for_last_process w) = atexit_hooks w"
  "calls (ProcessDispatcher_wait_for_last_process w) = calls w @ [(WaitForLastProcess, glean w)]"
  "pending (ProcessDispatcher_wait_for_last_process w) = []"
  "completed (ProcessDispatcher_wait_for_last_process w) = completed w @ pending w"
  "fs (ProcessDispatcher_wait_for_last_process w) =
     foldl (\<lambda>paths j. run_job j paths) (fs w) (pending w)"
  by (simp_all add: ProcessDispatcher_wait_for_last_process_def Let_def)

lemma dispatch_sel [simp]:
  "fst (ProcessDispatcher_dispatch j w) = Suc (length (completed w) + length (pending w))"
  "glean (snd (ProcessDispatcher_dispatch j w)) = glean w"
  "atexit_hooks (snd (ProcessDispatcher_dispatch j w)) = atexit_hooks w"
  "calls (snd (ProcessDispatcher_dispatch j w)) = calls w @ [(Dispatch j, glean w)]"
  "pending (snd (ProcessDispatcher_dispatch j w)) = pending w @ [j]"
  "completed (snd (ProcessDispatcher_dispatch j w)) = completed w"
  "fs (snd (ProcessDispatcher_dispatch j w)) = fs w"
  by (simp_all add: ProcessDispatcher_dispatch_def Let_def)

lemma handle_wait_sel [simp]:
  "glean (handle_wait p w) = glean w"
  "atexit_hooks (handle_wait p w) = atexit_hooks w"
  "calls (handle_wait p w) = calls w @ [(HandleWait p, glean w)]"
  "pending (handle_wait p w) = drop (p - length (completed w)) (pending w)"
  "completed (handle_wait p w) = completed w @ take (p - length (completed w)) (pending w)"
  "fs (handle_wait p w) =
     foldl (\<lambda>paths j. run_job j paths) (fs w) (take (p - length (completed w)) (pending w))"
  by (simp_all add: handle_wait_def Let_def)

lemmas core_defs =
  glean_initialize_def glean_test_destroy_glean_def glean_set_test_mode_def
  glean_set_upload_enabled_def glean_set_experiment_active_def
  glean_set_experiment_inactive_def glean_handle_client_active_def
  glean_handle_client_inactive_def logging_basicConfig_def

lemma glean_reset:
  "glean (reset w) = (glean w)\<lparr>init_finished := False, initialized := False, testing_mode := False\<rparr>"
  by (simp add: reset_def Let_def core_defs path_exists_def case_prod_beta)

lemma atexit_hooks_reset: "atexit_hooks (reset w) = removeAll Glean_reset (atexit_hooks w)"
  by (simp add: reset_def Let_def core_defs path_exists_def case_prod_beta)

lemmas example_defs =
  host_session_def test_session_def fresh_process_def Glean_class_def initialize_def
  initialize_with_tempdir_for_testing_def is_initialized_def on_initialize_finished_def
  trigger_upload_def PingUploadWorker_process_def Configuration_default_def build_date_def
  core_defs


subsection \<open>Jobs and the file system; the two shapes of a reset\<close>

lemma run_jobs_uploads:
  "list_all is_upload_pass js \<Longrightarrow> foldl (\<lambda>paths j. run_job j paths) paths js = paths"
  by (induction js arbitrary: paths) (auto elim: is_upload_pass.elims)

lemma rmtree_removes: "path \<notin> snd (rmtree path paths)"
  by (simp add: rmtree_def below_def)

lemma reset_owned:
  assumes "destroy_data_dir (glean w)" and "data_dir (glean w) \<in> fs w"
    and "data_dir (glean w) \<in> foldl (\<lambda>paths j. run_job j paths) (fs w) (pending w)"
  shows "reset w =
     handle_wait (Suc (length (completed w) + length (pending w)))
       (snd (ProcessDispatcher_dispatch (RmTree (data_dir (glean w)))
         (atexit_unregister Glean_reset
           ((emit (GleanSetTestMode False) (emit (GleanTestDestroyGlean False)
               (ProcessDispatcher_wait_for_last_process w)))
            \<lparr>glean := (glean w)\<lparr>init_finished := False, initialized := False,
                 testing_mode := False\<rparr>\<rparr>))))"
  using assms
  by (simp add: reset_def Let_def core_defs path_exists_def case_prod_beta)

lemma reset_not_owned:
  assumes "\<not> (destroy_data_dir (glean w) \<and> data_dir (glean w) \<in> fs w)"
  shows "reset w =
     atexit_unregister Glean_reset
       ((emit (GleanSetTestMode False) (emit (GleanTestDestroyGlean False) w))
          \<lparr>glean := (glean w)\<lparr>init_finished := False, initialized := False,
               testing_mode := False\<rparr>\<rparr>)"
proof (cases "destroy_data_dir (glean w)")
  case True
  with assms have "data_dir (glean w) \<notin> fs w" by simp
  with True show ?thesis
    by (simp add: reset_def Let_def core_defs path_exists_def case_prod_beta)
next
  case False
  then show ?thesis
    by (simp add: reset_def Let_def core_defs path_exists_def case_prod_beta)
qed

subsection \<open>The two example worlds\<close>

lemma test_session_facts:
  "glean test_session =
     \<lparr>initialized = True, init_finished = True, testing_mode = False,
      configuration = Some \<lparr>channel = None, max_events = None\<rparr>,
      data_dir = ''/tmp/glean'', destroy_data_dir = True, upload_enabled = True,
      ping_type_queue = {}, application_id = Some ''app'',
      application_version = Some ''1.0'', application_build_id = Some ''Unknown'',
      thread_lock = 0, simple_log_level = None\<rparr>"
  "pending test_session = [UploadPass False]"
  "completed test_session = []"
  "fs test_session = {''/tmp/glean'', ''/tmp/glean/db'', ''/data''}"
  by (simp_all add: example_defs Let_def)

lemma host_session_facts:
  "glean host_session =
     \<lparr>initialized = True, init_finished = False, testing_mode = False,
      configuration = Some \<lparr>channel = None, max_events = None\<rparr>,
      data_dir = ''/data'', destroy_data_dir = False, upload_enabled = True,
      ping_type_queue = {}, application_id = Some ''app'',
      application_version = Some ''Unknown'', application_build_id = Some ''Unknown'',
      thread_lock = 0, simple_log_level = None\<rparr>"
  "pending host_session = []"
  "completed host_session = []"
  "fs host_session = {''/data''}"
  by (simp_all add: example_defs Let_def)

subsection \<open>The ownership flag and the queue across a session\<close>

text \<open>
  No call of a session sets the ownership flag, and every operation leaves the dispatcher
  with upload passes pending at most: \<open>reset\<close> waits for the one removal job it submits.
\<close>

lemma destroy_data_dir_initialize:
  "destroy_data_dir (glean (snd (initialize a v u c d b l w))) =
     (if is_initialized w \<or> d = None then destroy_data_dir (glean w) else False)"
  by (cases l; cases d)
     (simp_all add: initialize_def is_initialized_def core_defs Let_def)

lemma perform_keeps_not_owned:
  assumes "\<not> destroy_data_dir (glean w)"
  shows "\<not> destroy_data_dir (glean (perform call w))"
proof (cases call)
  case (Initialize a v u c d b l)
  with assms show ?thesis by (simp add: destroy_data_dir_initialize)
next
  case (TestIsExperimentActive answer i)
  with assms show ?thesis
    by (cases answer)
       (simp_all add: test_is_experiment_active_def glean_test_get_experiment_data_def)
next
  case (TestGetExperimentData answer i)
  with assms show ?thesis
    by (cases answer)
       (simp_all add: test_get_experiment_data_def glean_test_get_experiment_data_def
          split: option.split)
qed (use assms in \<open>simp_all add: set_upload_enabled_def set_experiment_active_def
      set_experiment_inactive_def handle_client_active_def handle_client_inactive_def
      on_initialize_finished_def trigger_upload_def PingUploadWorker_process_def
      start_metrics_ping_scheduler_def cancel_uploads_def core_defs\<close>)

lemma session_keeps_not_owned:
  "\<not> destroy_data_dir (glean w) \<Longrightarrow> \<not> destroy_data_dir (glean (session cs w))"
  by (induction cs arbitrary: w) (simp_all add: perform_keeps_not_owned)

lemma tempdir_entry:
  "fst (initialize_with_tempdir_for_testing tmp a v u c b w) = Inr ()
   \<and> destroy_data_dir (glean (snd (initialize_with_tempdir_for_testing tmp a v u c b w)))
   \<and> (\<not> is_initialized w \<longrightarrow>
        \<not> destroy_data_dir
            (snd (last (calls (snd (initialize_with_tempdir_for_testing tmp a v u c b w))))))"
  by (cases "is_initialized w")
     (simp_all add: initialize_with_tempdir_for_testing_def initialize_def is_initialized_def
        core_defs Let_def)

lemma pending_initialize: "pending (snd (initialize a v u c d b l w)) = pending w"
  by (cases l; cases d)
     (simp_all add: initialize_def is_initialized_def core_defs Let_def)

lemma pending_reset:
  "pending (reset w) =
     (if destroy_data_dir (glean w) \<and> data_dir (glean w) \<in> fs w then [] else pending w)"
  by (simp add: reset_def Let_def core_defs path_exists_def case_prod_beta)

lemma uploads_pending_perform:
  assumes "list_all is_upload_pass (pending w)"
  shows "list_all is_upload_pass (pending (perform call w))"
proof (cases call)
  case (Initialize a v u c d b l)
  with assms show ?thesis by (simp add: pending_initialize)
next
  case (TestIsExperimentActive answer i)
  with assms show ?thesis
    by (cases answer)
       (simp_all add: test_is_experiment_active_def glean_test_get_experiment_data_def)
next
  case (TestGetExperimentData answer i)
  with assms show ?thesis
    by (cases answer)
       (simp_all add: test_get_experiment_data_def glean_test_get_experiment_data_def
          split: option.split)
qed (use assms in \<open>simp_all add: set_upload_enabled_def set_experiment_active_def
      set_experiment_inactive_def handle_client_active_def handle_client_inactive_def
      on_initialize_finished_def trigger_upload_def PingUploadWorker_process_def
      start_metrics_ping_scheduler_def cancel_uploads_def core_defs\<close>)

lemma uploads_pending_session:
  "list_all is_upload_pass (pending w) \<Longrightarrow> list_all is_upload_pass (pending (session cs w))"
  by (induction cs arbitrary: w) (simp_all add: uploads_pending_perform)

lemma uploads_pending_reset:
  "list_all is_upload_pass (pending w) \<Longrightarrow> list_all is_upload_pass (pending (reset w))"
  by (simp add: pending_reset)

lemma uploads_pending_tempdir:
  "list_all is_upload_pass (pending w) \<Longrightarrow>
   list_all is_upload_pass
     (pending (snd (initialize_with_tempdir_for_testing tmp a v u c b w)))"
  by (cases "is_initialized w")
     (simp_all add: initialize_with_tempdir_for_testing_def initialize_def is_initialized_def
        core_defs Let_def)

lemma uploads_pending_fresh: "list_all is_upload_pass (pending (fresh_process paths))"
  by (simp add: fresh_process_def)

section \<open>Properties of the coordinator\<close>

subsection \<open>Initialization\<close>

text \<open>
  C1. \<open>initialize\<close> is idempotent. Whenever \<open>is_initialized\<close> already answers true,
  a further \<open>initialize\<close>, whatever its arguments, returns normally, issues no call to the
  core (the only boundary call it can make is \<open>logging.basicConfig\<close>, when a log level is
  given) and leaves the stored data directory, configuration object, application id,
  version and build id as they were; Glean stays initialized.
\<close>

theorem initialize_idempotent:
  assumes "is_initialized w"
  shows "fst (initialize a v u c d b l w) = Inr ()
       \<and> map fst (new_calls w (snd (initialize a v u c d b l w))) =
           (case l of None \<Rightarrow> [] | Some x \<Rightarrow> [LoggingBasicConfig x])
       \<and> data_dir (glean (snd (initialize a v u c d b l w))) = data_dir (glean w)
       \<and> configuration (glean (snd (initialize a v u c d b l w))) = configuration (glean w)
       \<and> application_id (glean (snd (initialize a v u c d b l w))) = application_id (glean w)
       \<and> application_version (glean (snd (initialize a v u c d b l w))) =
           application_version (glean w)
       \<and> application_build_id (glean (snd (initialize a v u c d b l w))) =
           application_build_id (glean w)
       \<and> is_initialized (snd (initialize a v u c d b l w))"
  using assms
  by (cases l) (simp_all add: initialize_def is_initialized_def new_calls_def core_defs Let_def)

theorem initialize_idempotent_witness:
  "is_initialized host_session
   \<and> fst (initialize ''other'' (Some ''2.0'') False None (Some ''/elsewhere'') (Some ''b7'')
            (Some 10) host_session) = Inr ()
   \<and> map fst (new_calls host_session
         (snd (initialize ''other'' (Some ''2.0'') False None (Some ''/elsewhere'') (Some ''b7'')
            (Some 10) host_session))) = [LoggingBasicConfig 10]
   \<and> data_dir (glean (snd (initialize ''other'' (Some ''2.0'') False None (Some ''/elsewhere'')
            (Some ''b7'') (Some 10) host_session))) = ''/data''
   \<and> application_id (glean (snd (initialize ''other'' (Some ''2.0'') False None
            (Some ''/elsewhere'') (Some ''b7'') (Some 10) host_session))) = Some ''app''"
proof -
  have h: "is_initialized host_session"
    by (simp add: example_defs Let_def)
  have g: "data_dir (glean host_session) = ''/data''"
          "application_id (glean host_session) = Some ''app''"
    by (simp_all add: example_defs Let_def)
  show ?thesis
    using h g initialize_idempotent [OF h, of "''other''" "Some ''2.0''" False None
        "Some ''/elsewhere''" "Some ''b7''" "Some 10"]
    by simp
qed

text \<open>
  C5, as the code has it. Called without a data directory while Glean is not initialized,
  \<open>initialize\<close> fails with \<open>TypeError\<close> and has made no call to the core. It stores no
  session configuration and changes no flag: every class attribute keeps its value, except
  the log level, which is stored first whenever one is given. The dispatcher and the file
  system are untouched.
\<close>

theorem initialize_without_data_dir:
  assumes "\<not> is_initialized w"
  shows "fst (initialize a v u c None b l w) = Inl (TypeError ''data_dir must be provided'')
       \<and> filter is_core_call (map fst (new_calls w (snd (initialize a v u c None b l w)))) = []
       \<and> glean (snd (initialize a v u c None b l w)) =
           (glean w)\<lparr>simple_log_level :=
              (case l of None \<Rightarrow> simple_log_level (glean w) | Some x \<Rightarrow> Some x)\<rparr>
       \<and> pending (snd (initialize a v u c None b l w)) = pending w
       \<and> completed (snd (initialize a v u c None b l w)) = completed w
       \<and> fs (snd (initialize a v u c None b l w)) = fs w"
  using assms
  by (cases l) (simp_all add: initialize_def is_initialized_def new_calls_def core_defs Let_def)

theorem initialize_without_data_dir_witness:
  "\<not> is_initialized (fresh_process {''/data''})
   \<and> fst (initialize ''app'' (Some ''1.0'') True None None None None
            (fresh_process {''/data''})) = Inl (TypeError ''data_dir must be provided'')
   \<and> filter is_core_call (map fst (new_calls (fresh_process {''/data''})
         (snd (initialize ''app'' (Some ''1.0'') True None None None None
                (fresh_process {''/data''}))))) = []
   \<and> glean (snd (initialize ''app'' (Some ''1.0'') True None None None None
                (fresh_process {''/data''}))) = Glean_class"
proof -
  have h: "\<not> is_initialized (fresh_process {''/data''})"
    by (simp add: is_initialized_def fresh_process_def Glean_class_def)
  have g: "glean (fresh_process {''/data''}) = Glean_class"
    by (simp add: fresh_process_def)
  show ?thesis
    using h initialize_without_data_dir [OF h, of "''app''" "Some ''1.0''" True None None None]
    by (simp add: g)
qed

text \<open>
  The claim as written has the failed call change nothing. In a fresh process, a call
  without a data directory and with log level 10 fails with the \<open>TypeError\<close>, and yet the
  log level is stored and the exit hook is registered: both happen before the check.
\<close>

theorem initialize_without_data_dir_counterexample:
  "fst (initialize ''app'' (Some ''1.0'') True None None None (Some 10) (fresh_process {})) =
     Inl (TypeError ''data_dir must be provided'')
   \<and> atexit_hooks (fresh_process {}) = []
   \<and> atexit_hooks (snd (initialize ''app'' (Some ''1.0'') True None None None (Some 10)
        (fresh_process {}))) = [Glean_reset]
   \<and> simple_log_level (glean (fresh_process {})) = None
   \<and> simple_log_level (glean (snd (initialize ''app'' (Some ''1.0'') True None None None
        (Some 10) (fresh_process {})))) = Some 10"
  by (simp add: example_defs Let_def)

text \<open>
  C6. \<open>initialize\<close> does not hold the lock while the core call is in flight. In every
  call of \<open>initialize\<close>, each call to the core is made with the lock held exactly as
  many times as at entry. In an accepted call the boundary calls are, in order: the
  logging setup if a log level is given, the registration of the exit hook made inside
  the locked block (one more hold), and the core's \<open>glean_initialize\<close> made after the
  block (the hold count of the entry, so zero for a caller that does not hold the lock).
  At that moment the session configuration is already stored, and \<open>initialize\<close> returns
  with the lock as it found it.
\<close>

theorem initialize_core_call_outside_lock:
  "list_all (\<lambda>c. is_core_call (fst c) \<longrightarrow> thread_lock (snd c) = thread_lock (glean w))
      (new_calls w (snd (initialize a v u c d b l w)))
   \<and> (\<not> is_initialized w \<longrightarrow>
        map (\<lambda>c. (is_core_call (fst c), thread_lock (snd c)))
          (new_calls w (snd (initialize a v u c (Some dir) b l w))) =
        (case l of None \<Rightarrow> [] | Some x \<Rightarrow> [(False, thread_lock (glean w))]) @
        [(False, Suc (thread_lock (glean w))), (True, thread_lock (glean w))]
        \<and> map fst (butlast (new_calls w (snd (initialize a v u c (Some dir) b l w)))) =
            (case l of None \<Rightarrow> [] | Some x \<Rightarrow> [LoggingBasicConfig x]) @
            [AtexitRegister Glean_reset]
        \<and> (\<exists>cfg ci. fst (last (calls (snd (initialize a v u c (Some dir) b l w)))) =
                       GleanInitialize cfg ci \<and> data_path cfg = dir)
        \<and> snd (last (calls (snd (initialize a v u c (Some dir) b l w)))) =
            (glean w)
              \<lparr>simple_log_level :=
                 (case l of None \<Rightarrow> simple_log_level (glean w) | Some x \<Rightarrow> Some x),
               data_dir := dir,
               destroy_data_dir := False,
               configuration := Some (case c of None \<Rightarrow> Configuration_default | Some x \<Rightarrow> x),
               application_id := Some a,
               application_version := Some (case v of None \<Rightarrow> ''Unknown'' | Some x \<Rightarrow> x),
               application_build_id := Some (case b of None \<Rightarrow> ''Unknown'' | Some x \<Rightarrow> x)\<rparr>
        \<and> thread_lock (glean (snd (initialize a v u c (Some dir) b l w))) =
            thread_lock (glean w))"
  by (cases l; cases d; cases v; cases b; cases "is_initialized w")
     (simp_all add: initialize_def is_initialized_def new_calls_def core_defs Let_def)

theorem initialize_core_call_outside_lock_witness:
  "\<not> is_initialized (fresh_process {''/data''})
   \<and> thread_lock (glean (fresh_process {''/data''})) = 0
   \<and> map (\<lambda>c. (is_core_call (fst c), thread_lock (snd c)))
        (new_calls (fresh_process {''/data''})
           (snd (initialize ''app'' (Some ''1.0'') True None (Some ''/data'') None (Some 10)
                   (fresh_process {''/data''})))) =
       [(False, 0), (False, 1), (True, 0)]
   \<and> map fst (butlast (new_calls (fresh_process {''/data''})
           (snd (initialize ''app'' (Some ''1.0'') True None (Some ''/data'') None (Some 10)
                   (fresh_process {''/data''}))))) =
       [LoggingBasicConfig 10, AtexitRegister Glean_reset]"
proof -
  have h: "\<not> is_initialized (fresh_process {''/data''})"
    by (simp add: is_initialized_def fresh_process_def Glean_class_def)
  have n: "thread_lock (glean (fresh_process {''/data''})) = 0"
    by (simp add: fresh_process_def Glean_class_def)
  note t = initialize_core_call_outside_lock [of "fresh_process {''/data''}" "''app''"
      "Some ''1.0''" True None "Some ''/data''" None "Some 10" "''/data''",
      THEN conjunct2, THEN mp, OF h]
  show ?thesis
    using h n t by simp
qed

text \<open>
  C10. An accepted \<open>initialize\<close> stores the string \<open>Unknown\<close> for an application version
  or build id given as \<open>None\<close>, and the value itself otherwise. The same strings go to the
  core: the version as \<open>app_display_version\<close> of the client info, the build id as
  \<open>app_build\<close> of both the client info and the internal configuration (the internal
  configuration has no field for the version).
\<close>

theorem initialize_unknown_sentinel:
  assumes "\<not> is_initialized w"
  shows "fst (initialize a v u c (Some dir) b l w) = Inr ()
       \<and> application_version (glean (snd (initialize a v u c (Some dir) b l w))) =
           Some (case v of None \<Rightarrow> ''Unknown'' | Some x \<Rightarrow> x)
       \<and> application_build_id (glean (snd (initialize a v u c (Some dir) b l w))) =
           Some (case b of None \<Rightarrow> ''Unknown'' | Some x \<Rightarrow> x)
       \<and> fst (last (calls (snd (initialize a v u c (Some dir) b l w)))) =
           GleanInitialize
             \<lparr>data_path = dir,
              cfg_application_id = a,
              language_binding_name = ''Python'',
              cfg_upload_enabled = u,
              cfg_max_events =
                max_events (case c of None \<Rightarrow> Configuration_default | Some x \<Rightarrow> x),
              delay_ping_lifetime_io = False,
              use_core_mps = False,
              cfg_app_build = (case b of None \<Rightarrow> ''Unknown'' | Some x \<Rightarrow> x)\<rparr>
             \<lparr>app_build = (case b of None \<Rightarrow> ''Unknown'' | Some x \<Rightarrow> x),
              app_display_version = (case v of None \<Rightarrow> ''Unknown'' | Some x \<Rightarrow> x),
              app_build_date = build_date,
              ci_channel = channel (case c of None \<Rightarrow> Configuration_default | Some x \<Rightarrow> x),
              architecture = ''Unknown'',
              os_version = ''Unknown'',
              ci_locale = None,
              device_manufacturer = None,
              device_model = None,
              android_sdk_version = None\<rparr>"
  using assms
  by (cases l; cases v; cases b)
     (simp_all add: initialize_def is_initialized_def core_defs Let_def)

theorem initialize_unknown_sentinel_witness:
  "\<not> is_initialized (fresh_process {''/data''})
   \<and> application_version (glean (snd (initialize ''app'' None True None (Some ''/data'')
        (Some ''b7'') None (fresh_process {''/data''})))) = Some ''Unknown''
   \<and> application_build_id (glean (snd (initialize ''app'' None True None (Some ''/data'')
        (Some ''b7'') None (fresh_process {''/data''})))) = Some ''b7''
   \<and> fst (last (calls (snd (initialize ''app'' None True None (Some ''/data'')
        (Some ''b7'') None (fresh_process {''/data''}))))) =
       GleanInitialize
         \<lparr>data_path = ''/data'', cfg_application_id = ''app'',
          language_binding_name = ''Python'', cfg_upload_enabled = True,
          cfg_max_events = None, delay_ping_lifetime_io = False, use_core_mps = False,
          cfg_app_build = ''b7''\<rparr>
         \<lparr>app_build = ''b7'', app_display_version = ''Unknown'',
          app_build_date = build_date, ci_channel = None, architecture = ''Unknown'',
          os_version = ''Unknown'', ci_locale = None, device_manufacturer = None,
          device_model = None, android_sdk_version = None\<rparr>"
proof -
  have h: "\<not> is_initialized (fresh_process {''/data''})"
    by (simp add: is_initialized_def fresh_process_def Glean_class_def)
  show ?thesis
    using h initialize_unknown_sentinel [OF h, of "''app''" None True None "''/data''"
        "Some ''b7''" None]
    by (simp add: Configuration_default_def)
qed

text \<open>
  C9. An accepted call of the public \<open>initialize\<close> (made while Glean is not initialized,
  with a data directory) returns normally with the ownership flag false. The flag stays
  false through every later call of the session, so the \<open>reset\<close> that ends the session
  makes its three calls to the core and the interpreter only: it does not wait on the
  dispatcher, submits nothing, and leaves the file system and the queue as they are. The
  testing entry point always returns with the flag true, and sets it after \<open>initialize\<close>
  has returned: when its \<open>initialize\<close> is accepted, the core is still called with the
  flag false.
\<close>

theorem public_sessions_never_own:
  assumes "\<not> is_initialized w"
  shows "fst (initialize a v u c (Some dir) b l w) = Inr ()
       \<and> \<not> destroy_data_dir (glean (snd (initialize a v u c (Some dir) b l w)))
       \<and> \<not> destroy_data_dir (glean (session cs (snd (initialize a v u c (Some dir) b l w))))
       \<and> map fst (new_calls (session cs (snd (initialize a v u c (Some dir) b l w)))
                  (reset (session cs (snd (initialize a v u c (Some dir) b l w))))) =
           [GleanTestDestroyGlean False, GleanSetTestMode False, AtexitUnregister Glean_reset]
       \<and> fs (reset (session cs (snd (initialize a v u c (Some dir) b l w)))) =
           fs (session cs (snd (initialize a v u c (Some dir) b l w)))
       \<and> pending (reset (session cs (snd (initialize a v u c (Some dir) b l w)))) =
           pending (session cs (snd (initialize a v u c (Some dir) b l w)))
       \<and> completed (reset (session cs (snd (initialize a v u c (Some dir) b l w)))) =
           completed (session cs (snd (initialize a v u c (Some dir) b l w)))
       \<and> fst (initialize_with_tempdir_for_testing tmp a' v' u' c' b' w') = Inr ()
       \<and> destroy_data_dir
           (glean (snd (initialize_with_tempdir_for_testing tmp a' v' u' c' b' w')))
       \<and> (\<not> is_initialized w' \<longrightarrow>
            \<not> destroy_data_dir
                (snd (last (calls
                   (snd (initialize_with_tempdir_for_testing tmp a' v' u' c' b' w'))))))"
proof -
  have ok: "fst (initialize a v u c (Some dir) b l w) = Inr ()"
    using assms by (cases l) (simp_all add: initialize_def is_initialized_def core_defs Let_def)
  have start: "\<not> destroy_data_dir (glean (snd (initialize a v u c (Some dir) b l w)))"
    using assms by (simp add: destroy_data_dir_initialize)
  then have later:
    "\<not> destroy_data_dir (glean (session cs (snd (initialize a v u c (Some dir) b l w))))"
    by (rule session_keeps_not_owned)
  then have r: "reset (session cs (snd (initialize a v u c (Some dir) b l w))) =
     atexit_unregister Glean_reset
       ((emit (GleanSetTestMode False) (emit (GleanTestDestroyGlean False)
           (session cs (snd (initialize a v u c (Some dir) b l w)))))
          \<lparr>glean := (glean (session cs (snd (initialize a v u c (Some dir) b l w))))
              \<lparr>init_finished := False, initialized := False, testing_mode := False\<rparr>\<rparr>)"
    by (simp add: reset_not_owned)
  show ?thesis
    using ok start later tempdir_entry [of tmp a' v' u' c' b' w']
    by (simp add: r new_calls_def)
qed

theorem public_sessions_never_own_witness:
  "\<not> is_initialized (fresh_process {''/data''})
   \<and> \<not> destroy_data_dir (glean (session [TriggerUpload, OnInitializeFinished,
          Initialize ''again'' None True None (Some ''/other'') None None, SetUploadEnabled False]
          (snd (initialize ''app'' None True None (Some ''/data'') None None
                  (fresh_process {''/data''})))))
   \<and> fs (reset (session [TriggerUpload, OnInitializeFinished,
          Initialize ''again'' None True None (Some ''/other'') None None, SetUploadEnabled False]
          (snd (initialize ''app'' None True None (Some ''/data'') None None
                  (fresh_process {''/data''}))))) = {''/data''}
   \<and> pending (reset (session [TriggerUpload, OnInitializeFinished,
          Initialize ''again'' None True None (Some ''/other'') None None, SetUploadEnabled False]
          (snd (initialize ''app'' None True None (Some ''/data'') None None
                  (fresh_process {''/data''}))))) = [UploadPass False]
   \<and> destroy_data_dir (glean (snd (initialize_with_tempdir_for_testing ''/tmp/glean''
          ''app'' None True None None (fresh_process {''/data''}))))
   \<and> \<not> destroy_data_dir (snd (last (calls (snd (initialize_with_tempdir_for_testing
          ''/tmp/glean'' ''app'' None True None None (fresh_process {''/data''}))))))"
proof -
  have h: "\<not> is_initialized (fresh_process {''/data''})"
    by (simp add: is_initialized_def fresh_process_def Glean_class_def)
  have s: "fs (session [TriggerUpload, OnInitializeFinished,
          Initialize ''again'' None True None (Some ''/other'') None None, SetUploadEnabled False]
          (snd (initialize ''app'' None True None (Some ''/data'') None None
                  (fresh_process {''/data''})))) = {''/data''}"
       "pending (session [TriggerUpload, OnInitializeFinished,
          Initialize ''again'' None True None (Some ''/other'') None None, SetUploadEnabled False]
          (snd (initialize ''app'' None True None (Some ''/data'') None None
                  (fresh_process {''/data''})))) = [UploadPass False]"
    by (simp_all add: example_defs set_upload_enabled_def Let_def)
  show ?thesis
    using h s public_sessions_never_own [OF h, of "''app''" None True None "''/data''" None None
        "[TriggerUpload, OnInitializeFinished,
          Initialize ''again'' None True None (Some ''/other'') None None,
          SetUploadEnabled False]" "''/tmp/glean''" "''app''" None True None None
        "fresh_process {''/data''}"]
    by simp
qed

subsection \<open>The event bridge\<close>

text \<open>
  C7. Every \<open>trigger_upload\<close> callback submits exactly one upload pass to the job
  dispatcher, and the pass carries the value the testing-mode flag has at the time of the
  call: the one boundary call made is the dispatch of that pass, the pass is appended to
  the dispatcher's queue, and nothing else changes.
\<close>

theorem trigger_upload_submits:
  "new_calls w (trigger_upload w) = [(Dispatch (UploadPass (testing_mode (glean w))), glean w)]
   \<and> pending (trigger_upload w) = pending w @ [UploadPass (testing_mode (glean w))]
   \<and> completed (trigger_upload w) = completed w
   \<and> glean (trigger_upload w) = glean w
   \<and> fs (trigger_upload w) = fs w"
  by (simp add: trigger_upload_def PingUploadWorker_process_def new_calls_def)

subsection \<open>Reset\<close>

text \<open>
  C2. When the coordinator owns the data directory and the directory exists, \<open>reset\<close>
  makes its boundary calls in this order: it waits for the last job given to the
  dispatcher, destroys the core with argument \<open>False\<close>, clears the core's test mode,
  clears the local flags (the calls before see the flags as they were, the calls after see
  them false), unregisters the exit hook, submits the removal of the directory to the same
  dispatcher and waits on its handle. When \<open>reset\<close> returns no job is pending, every job
  that was pending has completed before the removal job, and the directory is gone. The
  jobs pending at entry are upload passes, the only jobs the coordinator leaves pending.
\<close>

theorem reset_owned_teardown:
  assumes "destroy_data_dir (glean w)"
    and "path_exists (data_dir (glean w)) w"
    and "list_all is_upload_pass (pending w)"
  shows "new_calls w (reset w) =
           [(WaitForLastProcess, glean w),
            (GleanTestDestroyGlean False, glean w),
            (GleanSetTestMode False, glean w),
            (AtexitUnregister Glean_reset,
               (glean w)\<lparr>init_finished := False, initialized := False, testing_mode := False\<rparr>),
            (Dispatch (RmTree (data_dir (glean w))),
               (glean w)\<lparr>init_finished := False, initialized := False, testing_mode := False\<rparr>),
            (HandleWait (Suc (length (completed w) + length (pending w))),
               (glean w)\<lparr>init_finished := False, initialized := False, testing_mode := False\<rparr>)]
       \<and> pending (reset w) = []
       \<and> completed (reset w) = completed w @ pending w @ [RmTree (data_dir (glean w))]
       \<and> \<not> path_exists (data_dir (glean w)) (reset w)
       \<and> Glean_reset \<notin> set (atexit_hooks (reset w))"
proof -
  have ex: "data_dir (glean w) \<in> fs w"
    using assms(2) by (simp add: path_exists_def)
  have still: "foldl (\<lambda>paths j. run_job j paths) (fs w) (pending w) = fs w"
    using assms(3) by (rule run_jobs_uploads)
  have r: "reset w =
     handle_wait (Suc (length (completed w) + length (pending w)))
       (snd (ProcessDispatcher_dispatch (RmTree (data_dir (glean w)))
         (atexit_unregister Glean_reset
           ((emit (GleanSetTestMode False) (emit (GleanTestDestroyGlean False)
               (ProcessDispatcher_wait_for_last_process w)))
            \<lparr>glean := (glean w)\<lparr>init_finished := False, initialized := False,
                 testing_mode := False\<rparr>\<rparr>))))"
    using assms(1) ex still by (simp add: reset_owned)
  have c: "new_calls w (reset w) =
           [(WaitForLastProcess, glean w),
            (GleanTestDestroyGlean False, glean w),
            (GleanSetTestMode False, glean w),
            (AtexitUnregister Glean_reset,
               (glean w)\<lparr>init_finished := False, initialized := False, testing_mode := False\<rparr>),
            (Dispatch (RmTree (data_dir (glean w))),
               (glean w)\<lparr>init_finished := False, initialized := False, testing_mode := False\<rparr>),
            (HandleWait (Suc (length (completed w) + length (pending w))),
               (glean w)\<lparr>init_finished := False, initialized := False, testing_mode := False\<rparr>)]"
    by (simp add: r new_calls_def)
  have p: "pending (reset w) = []"
    by (simp add: r)
  have d: "completed (reset w) = completed w @ pending w @ [RmTree (data_dir (glean w))]"
    by (simp add: r)
  have f: "fs (reset w) = snd (rmtree (data_dir (glean w)) (fs w))"
    by (simp add: r still)
  have g: "\<not> path_exists (data_dir (glean w)) (reset w)"
    by (simp add: path_exists_def f rmtree_removes)
  have h: "Glean_reset \<notin> set (atexit_hooks (reset w))"
    by (simp add: atexit_hooks_reset)
  show ?thesis using c p d g h by simp
qed

theorem reset_owned_teardown_witness:
  "destroy_data_dir (glean test_session)
   \<and> path_exists (data_dir (glean test_session)) test_session
   \<and> list_all is_upload_pass (pending test_session)
   \<and> map fst (new_calls test_session (reset test_session)) =
       [WaitForLastProcess, GleanTestDestroyGlean False, GleanSetTestMode False,
        AtexitUnregister Glean_reset, Dispatch (RmTree ''/tmp/glean''), HandleWait 2]
   \<and> map (initialized \<circ> snd) (new_calls test_session (reset test_session)) =
       [True, True, True, False, False, False]
   \<and> pending (reset test_session) = []
   \<and> completed (reset test_session) = [UploadPass False, RmTree ''/tmp/glean'']
   \<and> \<not> path_exists ''/tmp/glean'' (reset test_session)"
proof -
  have h1: "destroy_data_dir (glean test_session)"
    by (simp add: test_session_facts)
  have h2: "path_exists (data_dir (glean test_session)) test_session"
    by (simp add: test_session_facts path_exists_def)
  have h3: "list_all is_upload_pass (pending test_session)"
    by (simp add: test_session_facts)
  show ?thesis
    using h1 h2 h3 reset_owned_teardown [OF h1 h2 h3]
    by (simp add: test_session_facts)
qed

text \<open>
  C3. \<open>reset\<close> talks to the dispatcher (wait, submit, wait on the handle) only when the
  ownership flag is true and the data directory exists, and the only job it ever submits
  is the removal of the data directory. When the flag is false, or the directory is
  missing, \<open>reset\<close> makes its three other boundary calls only, deletes nothing and leaves
  the dispatcher's queue alone.
\<close>

theorem reset_removal_guard:
  "(list_ex is_dispatcher_call (map fst (new_calls w (reset w))) \<longrightarrow>
      destroy_data_dir (glean w) \<and> path_exists (data_dir (glean w)) w)
   \<and> (\<forall>j. Dispatch j \<in> set (map fst (new_calls w (reset w))) \<longrightarrow>
         j = RmTree (data_dir (glean w)))
   \<and> (\<not> (destroy_data_dir (glean w) \<and> path_exists (data_dir (glean w)) w) \<longrightarrow>
         fs (reset w) = fs w \<and> pending (reset w) = pending w
         \<and> completed (reset w) = completed w
         \<and> map fst (new_calls w (reset w)) =
             [GleanTestDestroyGlean False, GleanSetTestMode False, AtexitUnregister Glean_reset])"
proof (cases "destroy_data_dir (glean w) \<and> data_dir (glean w) \<in> fs w")
  case False
  then show ?thesis
    by (simp add: reset_not_owned new_calls_def path_exists_def)
next
  case True
  then show ?thesis
    by (simp add: reset_def Let_def core_defs path_exists_def case_prod_beta new_calls_def)
qed

theorem reset_removal_guard_witness:
  "list_ex is_dispatcher_call (map fst (new_calls test_session (reset test_session)))
   \<and> destroy_data_dir (glean test_session)
   \<and> path_exists (data_dir (glean test_session)) test_session
   \<and> \<not> (destroy_data_dir (glean host_session)
         \<and> path_exists (data_dir (glean host_session)) host_session)
   \<and> fs (reset host_session) = {''/data''}
   \<and> pending (reset host_session) = []
   \<and> map fst (new_calls host_session (reset host_session)) =
       [GleanTestDestroyGlean False, GleanSetTestMode False, AtexitUnregister Glean_reset]"
proof -
  have a: "list_ex is_dispatcher_call (map fst (new_calls test_session (reset test_session)))"
    by (simp add: reset_def Let_def core_defs path_exists_def case_prod_beta new_calls_def
          test_session_facts)
  have b: "\<not> (destroy_data_dir (glean host_session)
         \<and> path_exists (data_dir (glean host_session)) host_session)"
    by (simp add: host_session_facts)
  note g1 = reset_removal_guard [of test_session, THEN conjunct1, THEN mp, OF a]
  note g2 = reset_removal_guard [of host_session, THEN conjunct2, THEN conjunct2, THEN mp, OF b]
  show ?thesis
    using a b g1 g2 by (simp add: host_session_facts)
qed

text \<open>
  C4, as the code has it. After \<open>reset\<close> returns, \<open>is_initialized\<close> answers false and
  the init-finished and testing-mode flags are false. The ownership flag is not touched by
  \<open>reset\<close>: it keeps the value it had, and it is the next accepted \<open>initialize\<close> that
  sets it to false.
\<close>

theorem reset_flags:
  "\<not> is_initialized (reset w)
   \<and> \<not> init_finished (glean (reset w))
   \<and> \<not> testing_mode (glean (reset w))
   \<and> destroy_data_dir (glean (reset w)) = destroy_data_dir (glean w)
   \<and> \<not> destroy_data_dir (glean (snd (initialize a v u c (Some d) b l (reset w))))"
  by (cases l) (simp_all add: glean_reset initialize_def is_initialized_def core_defs Let_def)

text \<open>
  The claim as written asks for all four flags to be false after \<open>reset\<close>. In a session
  started on a temporary directory the ownership flag is still true afterwards.
\<close>

theorem reset_keeps_ownership_counterexample:
  "destroy_data_dir (glean (reset test_session))"
  by (simp add: glean_reset example_defs Let_def)

subsection \<open>Experiment accessors\<close>

text \<open>
  C8. \<open>test_is_experiment_active\<close> answers true exactly when the core's query returns a
  record and false exactly when it returns none. \<open>test_get_experiment_data\<close> returns the
  record the core reports, and fails with \<open>RuntimeError\<close> "Experiment data is not set"
  exactly when the core reports none; a failure inside the core reaches the caller as the
  core's own error, never as this one. Both accessors put one query to the core.
\<close>

theorem experiment_accessors:
  "(fst (test_is_experiment_active answer i w) = Inr True) = (\<exists>r. answer = Inr (Some r))
   \<and> (fst (test_is_experiment_active answer i w) = Inr False) = (answer = Inr None)
   \<and> fst (test_get_experiment_data (Inr (Some r)) i w) = Inr r
   \<and> (fst (test_get_experiment_data answer i w) =
          Inl (RuntimeError ''Experiment data is not set'')) = (answer = Inr None)
   \<and> fst (test_get_experiment_data (Inl m) i w) = Inl (InternalError m)
   \<and> fst (test_is_experiment_active (Inl m) i w) = Inl (InternalError m)
   \<and> map fst (new_calls w (snd (test_is_experiment_active answer i w))) =
       [GleanTestGetExperimentData i]
   \<and> map fst (new_calls w (snd (test_get_experiment_data answer i w))) =
       [GleanTestGetExperimentData i]"
  by (cases answer)
     (auto simp add: test_is_experiment_active_def test_get_experiment_data_def
        glean_test_get_experiment_data_def new_calls_def split: option.splits)

end
